theory Spec2Isabelle
  imports Main "HOL-Library.Sublist"
begin

section \<open>JavaScript values read by the handlers\<close>

text \<open>
  The route handlers and the chat window read parsed JSON: the request body on the
  server, the body of a failed response on the client. \<open>JObj\<close> holds the own
  properties of a parsed object, each key once. A parsed number is a double; the code
  never computes with one, it only tests it for zero and prints it. \<open>JNum\<close> therefore
  holds a number by the text JavaScript prints for it (\<open>String(n)\<close>: \<open>403\<close>,
  \<open>0.5\<close>, \<open>1e+21\<close>), which is the same for two doubles exactly when they are equal;
  both zeros print \<open>0\<close>, and JSON has no NaN.

  A thrown value is an object of which the handlers read two properties, \<open>message\<close>
  and \<open>status\<close>; either may be undefined.
\<close>

datatype json =
    JNull
  | JBool bool
  | JNum string
  | JStr string
  | JArr "json list"
  | JObj "(string \<times> json) list"

record js_error =
  message :: "string option"
  status :: "int option"

definition Error :: "string \<Rightarrow> js_error" where
  "Error m = \<lparr>message = Some m, status = None\<rparr>"

definition TypeError :: "string \<Rightarrow> js_error" where
  "TypeError m = \<lparr>message = Some m, status = None\<rparr>"

text \<open>
  \<open>get_prop v k\<close> is the member access \<open>v.k\<close> for the keys the code reads
  (\<open>messages\<close>, \<open>role\<close>, \<open>error\<close>; none of them is a property of a prototype):
  it throws on \<open>null\<close>, looks the key up in an object, and is \<open>undefined\<close>
  (\<open>None\<close>) on every other value. The wording of the TypeError is V8's.
\<close>

fun get_prop :: "json \<Rightarrow> string \<Rightarrow> js_error + json option" where
  "get_prop JNull k =
     Inl (TypeError (''Cannot read properties of null (reading '' @ [CHR 0x27] @ k @ [CHR 0x27] @ '')''))"
| "get_prop (JObj kvs) k = Inr (map_of kvs k)"
| "get_prop (JBool b) k = Inr None"
| "get_prop (JNum n) k = Inr None"
| "get_prop (JStr s) k = Inr None"
| "get_prop (JArr xs) k = Inr None"

text \<open>Truthiness of a string that may be undefined (an environment variable, a token).\<close>

definition truthy :: "string option \<Rightarrow> bool" where
  "truthy v = (case v of None \<Rightarrow> False | Some s \<Rightarrow> s \<noteq> [])"

text \<open>\<open>m?.includes(s)\<close>: undefined (falsy) when \<open>m\<close> is undefined.\<close>

definition includes_js :: "string option \<Rightarrow> string \<Rightarrow> bool" where
  "includes_js m s = (case m of None \<Rightarrow> False | Some t \<Rightarrow> sublist s t)"

section \<open>The chat route (part\_002)\<close>

subsection \<open>Tools, agents, responses\<close>

datatype llm =
    ChatGoogleGenerativeAI (model: string) (apiKey: string) (temperature: int)
  | ChatOpenAI (model: string) (temperature: int)

text \<open>
  The Gmail tools are built from \<open>{credentials: {accessToken}}\<close>, the calendar tools
  from \<open>{credentials: {accessToken, calendarId}, model}\<close>.
\<close>

datatype tool =
    Calculator
  | SerpAPI string
  | GmailSearch string
  | GmailCreateDraft string
  | GoogleCalendarCreateTool string string llm
  | GoogleCalendarViewTool string string llm

text \<open>The argument of \<open>createReactAgent\<close>; \<open>messageModifier\<close> is the text of the SystemMessage.\<close>

record agent =
  llm :: llm
  tools :: "tool list"
  messageModifier :: string

text \<open>
  The agent engine, the development logger and the stream adapter are libraries: their
  calls are kept as constructors, so a response shows which agent was asked to stream
  which history. \<open>streamEvents\<close> only sets the stream up, the agent runs while the
  response is read; these calls are taken not to throw.
  \<open>NextResponse_json e s\<close> is \<open>NextResponse.json({error: e}, {status: s})\<close>;
  an undefined \<open>e\<close> leaves the field out.
\<close>

datatype 'm stream =
    streamEvents agent "'m list"
  | logToolCallsInDevelopment "'m stream"

datatype 'm response =
    toDataStreamResponse "'m stream"
  | NextResponse_json "string option" int

fun agent_of :: "'m stream \<Rightarrow> agent" where
  "agent_of (streamEvents a ms) = a"
| "agent_of (logToolCallsInDevelopment s) = agent_of s"

fun history_of :: "'m stream \<Rightarrow> 'm list" where
  "history_of (streamEvents a ms) = ms"
| "history_of (logToolCallsInDevelopment s) = history_of s"

text \<open>A data stream response is sent with status 200; a JSON response with the status given.\<close>

fun http_status :: "'m response \<Rightarrow> int" where
  "http_status (toDataStreamResponse s) = 200"
| "http_status (NextResponse_json e s) = s"

fun is_stream :: "'m response \<Rightarrow> bool" where
  "is_stream (toDataStreamResponse s) = True"
| "is_stream (NextResponse_json e s) = False"

datatype console = console_log string | console_warn string | console_error string

subsection \<open>What the handler gets from outside\<close>

text \<open>
  One request sees one outcome of each external call: the two environment variables, the
  result of \<open>getGoogleAccessToken()\<close> (it throws, or returns a token that may be
  undefined or empty), and whether constructing the four Google tools throws.
  A request is the outcome of \<open>await req.json()\<close>: a thrown error or the parsed body.
\<close>

record externals =
  GOOGLE_API_KEY :: "string option"
  SERPAPI_API_KEY :: "string option"
  getGoogleAccessToken :: "js_error + string option"
  google_tools_throw :: "js_error option"

type_synonym request = "js_error + json"

subsection \<open>The history: filter, then convert\<close>

text \<open>The callback of \<open>filter\<close>: \<open>message.role === 'user' || message.role === 'assistant'\<close>.\<close>

definition user_or_assistant :: "json \<Rightarrow> js_error + bool" where
  "user_or_assistant msg =
     (case get_prop msg ''role'' of
        Inl e \<Rightarrow> Inl e
      | Inr r \<Rightarrow> Inr (r = Some (JStr ''user'') \<or> r = Some (JStr ''assistant'')))"

text \<open>\<open>Array.prototype.filter\<close> with a callback that may throw: the first throw ends the loop.\<close>

fun filter_js :: "('a \<Rightarrow> js_error + bool) \<Rightarrow> 'a list \<Rightarrow> js_error + 'a list" where
  "filter_js p [] = Inr []"
| "filter_js p (x # xs) =
     (case p x of
        Inl e \<Rightarrow> Inl e
      | Inr b \<Rightarrow>
          (case filter_js p xs of
             Inl e \<Rightarrow> Inl e
           | Inr ys \<Rightarrow> Inr (if b then x # ys else ys)))"

text \<open>
  \<open>(body.messages ?? []).filter(...).map(convertVercelMessageToLangChainMessage)\<close>.
  The converter is not among the sources and is a parameter, a function that returns. A
  value that is not an array has no \<open>filter\<close> method, so the call throws.
\<close>

definition messages_of :: "(json \<Rightarrow> 'm) \<Rightarrow> json \<Rightarrow> js_error + 'm list" where
  "messages_of convert body =
     (case get_prop body ''messages'' of
        Inl e \<Rightarrow> Inl e
      | Inr m \<Rightarrow>
          (case (case m of None \<Rightarrow> JArr [] | Some JNull \<Rightarrow> JArr [] | Some v \<Rightarrow> v) of
             JArr xs \<Rightarrow>
               (case filter_js user_or_assistant xs of
                  Inl e \<Rightarrow> Inl e
                | Inr ys \<Rightarrow> Inr (map convert ys))
           | _ \<Rightarrow> Inl (TypeError ''(intermediate value).filter is not a function'')))"

subsection \<open>The system template\<close>

definition nl :: string where
  "nl = [CHR 0x0A]"

fun join_lines :: "string list \<Rightarrow> string" where
  "join_lines [] = []"
| "join_lines [l] = l"
| "join_lines (l # ls) = l @ nl @ join_lines ls"

text \<open>The template literal of the first route file, line by line; the bytes after
  ``started'' are those of the source file.\<close>

definition AGENT_SYSTEM_TEMPLATE :: string where
  "AGENT_SYSTEM_TEMPLATE = join_lines [
     ''You are Simple, your friendly personal assistant who keeps it simple. I'm here to help with tasks, answer questions, and make your life easier with these powerful tools at my disposal:'',
     [],
     ''1. Calculator: I can solve math problems and perform calculations for you.'',
     ''2. Web Search: I can search the internet for current information, news, or facts.'',
     ''3. Gmail: I can search your emails and create email drafts.'',
     ''4. Google Calendar: I can view your calendar and create new events.'',
     [],
     ''I'll proactively suggest using these tools when they can help with your request.'',
     [],
     ''When I need more information to help you effectively:'',
     ''- I'll ask specific, clear questions to get the details I need'',
     ''- For calendar events, I'll ask for date, time, title, and any other missing information'',
     ''- For emails, I'll ask for recipient, subject, and content details if not provided'',
     ''- I won't guess critical information that could lead to errors'',
     [],
     ''Formatting Guidelines:'',
     ''Calendar Events:  '',
     ''Date: YYYY-MM-DD  '',
     ''Time: HH:MM - HH:MM  '',
     ''Event Name: Bold and clear  '',
     ''Location: Where it's at  '',
     ''Summary: One short sentence'',
     [],
     ''Emails:  '',
     ''Clean markdown for clarity  '',
     ''Summarize long emails  '',
     ''Keep it neat and simple'',
     [],
     ''General Tips:  '',
     ''Short and sweet  '',
     ''Consistent spacing  '',
     ''Readability is key!'',
     [],
     ''Let's get started'' @ [CHR 0xC3, CHR 0xA2, CHR 0xE2, CHR 0x82, CHR 0xAC, CHR 0xE2, CHR 0x80, CHR 0x9D] @ ''I'm here to help with a smile!'']"

subsection \<open>The blocks of the handler\<close>

text \<open>Lines 69 to 75: the reply when \<open>GOOGLE_API_KEY\<close> is undefined or empty.\<close>

definition missing_key :: "console list \<times> 'm response" where
  "missing_key =
     ([console_error ''Missing GOOGLE_API_KEY environment variable''],
      NextResponse_json (Some ''Server configuration error: Missing Gemini API key'') 500)"

text \<open>Lines 84 to 91: the basic tools, and the warning when there is no search key.\<close>

definition basicTools :: "externals \<Rightarrow> console list \<times> tool list" where
  "basicTools ext =
     (case SERPAPI_API_KEY ext of
        None \<Rightarrow>
          ([console_warn ''SERPAPI_API_KEY not configured - web search functionality will be unavailable''],
           [Calculator])
      | Some k \<Rightarrow>
          if k = [] then
            ([console_warn ''SERPAPI_API_KEY not configured - web search functionality will be unavailable''],
             [Calculator])
          else ([], [Calculator, SerpAPI k]))"

text \<open>Lines 97 to 113: no access token.\<close>

definition no_token_note :: string where
  "no_token_note =
     nl @ nl @ ''NOTE: Google integrations (Gmail, Calendar) are currently unavailable. You don't have permission to access Google services.'' @
     nl @ nl @ ''To fix this issue: Please sign out, then sign back in and make sure to allow all requested permissions.''"

definition no_token :: "llm \<Rightarrow> tool list \<Rightarrow> 'm list \<Rightarrow> console list \<times> 'm response" where
  "no_token l basic messages =
     ([console_warn ''No Google access token available - falling back to basic tools''],
      toDataStreamResponse (logToolCallsInDevelopment (streamEvents
        \<lparr>llm = l, tools = basic, messageModifier = AGENT_SYSTEM_TEMPLATE @ no_token_note\<rparr>
        messages)))"

text \<open>Lines 117 to 134: the four Google tools, after the basic ones.\<close>

definition google_tools :: "string \<Rightarrow> llm \<Rightarrow> tool list" where
  "google_tools accessToken l =
     [GmailSearch accessToken,
      GmailCreateDraft accessToken,
      GoogleCalendarCreateTool accessToken ''primary'' l,
      GoogleCalendarViewTool accessToken ''primary'' l]"

text \<open>Lines 136 to 163: the agent with every tool and the template as it is.\<close>

definition full_agent :: "llm \<Rightarrow> tool list \<Rightarrow> string \<Rightarrow> 'm list \<Rightarrow> console list \<times> 'm response" where
  "full_agent l basic accessToken messages =
     ([console_log ''Successfully created Google tools, creating agent''],
      toDataStreamResponse (logToolCallsInDevelopment (streamEvents
        \<lparr>llm = l, tools = basic @ google_tools accessToken l,
         messageModifier = AGENT_SYSTEM_TEMPLATE\<rparr>
        messages)))"

text \<open>Lines 168 to 173: the hint chosen from the message of the caught error.\<close>

definition errorContext :: "js_error \<Rightarrow> string" where
  "errorContext googleError =
     (if includes_js (message googleError) ''insufficient authentication scopes'' then
        ''Insufficient Google API permissions. The app needs additional permissions to access your Google data.''
      else if includes_js (message googleError) ''token'' then
        ''Authentication token error. Please try logging out and back in to refresh your permissions.''
      else ''Google integration error'')"

text \<open>Lines 164 to 190: the inner catch.\<close>

definition google_note :: "js_error \<Rightarrow> string" where
  "google_note googleError =
     nl @ nl @ ''NOTE: Google integrations (Gmail, Calendar) are currently unavailable: '' @
     errorContext googleError @
     ''. Please try logging out and back in with Google to fix this issue.''"

definition catch_google :: "js_error \<Rightarrow> llm \<Rightarrow> tool list \<Rightarrow> 'm list \<Rightarrow> console list \<times> 'm response" where
  "catch_google googleError l basic messages =
     ([console_error ''Google API access error:'',
       console_log ''Falling back to LLM without Google integrations''],
      toDataStreamResponse (logToolCallsInDevelopment (streamEvents
        \<lparr>llm = l, tools = basic,
         messageModifier = AGENT_SYSTEM_TEMPLATE @ google_note googleError\<rparr>
        messages)))"

text \<open>Lines 191 to 194: the outer catch; \<open>e.message || 'Unknown server error'\<close> and
  \<open>e.status ?? 500\<close>.\<close>

definition catch_all :: "js_error \<Rightarrow> console list \<times> 'm response" where
  "catch_all e =
     ([console_error ''API error:''],
      NextResponse_json
        (case message e of
           None \<Rightarrow> Some ''Unknown server error''
         | Some m \<Rightarrow> if m = [] then Some ''Unknown server error'' else Some m)
        (case status e of None \<Rightarrow> 500 | Some s \<Rightarrow> s))"

text \<open>A console line written before the rest of a block runs.\<close>

definition after :: "console list \<Rightarrow> console list \<times> 'a \<Rightarrow> console list \<times> 'a" where
  "after out r = (out @ fst r, snd r)"

text \<open>Lines 93 to 190: the inner try, from the token to the response.\<close>

definition with_google :: "externals \<Rightarrow> llm \<Rightarrow> tool list \<Rightarrow> 'm list \<Rightarrow> console list \<times> 'm response" where
  "with_google ext l basic messages =
     (case getGoogleAccessToken ext of
        Inl googleError \<Rightarrow> catch_google googleError l basic messages
      | Inr None \<Rightarrow> no_token l basic messages
      | Inr (Some accessToken) \<Rightarrow>
          if accessToken = [] then no_token l basic messages
          else
            after [console_log ''Successfully retrieved Google access token, initializing tools'']
              (case google_tools_throw ext of
                 Some googleError \<Rightarrow> catch_google googleError l basic messages
               | None \<Rightarrow> full_agent l basic accessToken messages))"

subsection \<open>The handler\<close>

definition POST :: "(json \<Rightarrow> 'm) \<Rightarrow> externals \<Rightarrow> request \<Rightarrow> console list \<times> 'm response" where
  "POST convert ext req =
     (case req of
        Inl e \<Rightarrow> catch_all e
      | Inr body \<Rightarrow>
          (case messages_of convert body of
             Inl e \<Rightarrow> catch_all e
           | Inr messages \<Rightarrow>
               (case GOOGLE_API_KEY ext of
                  None \<Rightarrow> missing_key
                | Some key \<Rightarrow>
                    if key = [] then missing_key
                    else
                      after (fst (basicTools ext))
                        (with_google ext
                           (ChatGoogleGenerativeAI ''gemini-2.5-flash-preview-04-17'' key 0)
                           (snd (basicTools ext)) messages))))"

text \<open>
  The second route file of part\_002 is the same handler with another template text and
  the model name \<open>gemini-2.0-flash\<close>.
\<close>

section \<open>The plain agent route (part\_001)\<close>

definition AGENT_SYSTEM_TEMPLATE_plain :: string where
  "AGENT_SYSTEM_TEMPLATE_plain =
     ''You are a personal assistant named Assistant0. You are a helpful assistant that can answer questions and help with tasks. You have access to a set of tools, use the tools as needed to answer the user's question.''"

text \<open>Its catch sends \<open>e.message\<close> as it is, and writes nothing to the console.\<close>

definition catch_plain :: "js_error \<Rightarrow> 'm response" where
  "catch_plain e = NextResponse_json (message e) (case status e of None \<Rightarrow> 500 | Some s \<Rightarrow> s)"

definition POST_plain :: "(json \<Rightarrow> 'm) \<Rightarrow> request \<Rightarrow> 'm response" where
  "POST_plain convert req =
     (case req of
        Inl e \<Rightarrow> catch_plain e
      | Inr body \<Rightarrow>
          (case messages_of convert body of
             Inl e \<Rightarrow> catch_plain e
           | Inr messages \<Rightarrow>
               toDataStreamResponse (streamEvents
                 \<lparr>llm = ChatOpenAI ''gpt-4'' 0, tools = [],
                  messageModifier = AGENT_SYSTEM_TEMPLATE_plain\<rparr>
                 messages)))"

section \<open>The chat window (part\_000)\<close>

subsection \<open>Printing values\<close>

fun show_nat :: "nat \<Rightarrow> string" where
  "show_nat n =
     (if n < 10 then [''0123456789'' ! n]
      else show_nat (n div 10) @ [''0123456789'' ! (n mod 10)])"

declare show_nat.simps [simp del]

fun join_commas :: "string list \<Rightarrow> string" where
  "join_commas [] = []"
| "join_commas [s] = s"
| "join_commas (s # ss) = s @ '','' @ join_commas ss"

text \<open>
  \<open>String(v)\<close>, the conversion \<open>new Error(v)\<close> applies to its argument; \<open>None\<close>
  when it throws. An array is joined with commas, \<open>null\<close> entries printing as nothing.
  An object without a \<open>toString\<close> of its own prints through \<open>Object.prototype\<close>;
  one with its own \<open>toString\<close>, which parsed from JSON is never a function, has no
  primitive value and the conversion throws a TypeError.
\<close>

fun js_String :: "json \<Rightarrow> string option" where
  "js_String JNull = Some ''null''"
| "js_String (JBool b) = Some (if b then ''true'' else ''false'')"
| "js_String (JNum n) = Some n"
| "js_String (JStr s) = Some s"
| "js_String (JArr xs) =
     map_option join_commas
       (those (map (\<lambda>x. case x of JNull \<Rightarrow> Some [] | _ \<Rightarrow> js_String x) xs))"
| "js_String (JObj kvs) =
     (case map_of kvs ''toString'' of None \<Rightarrow> Some ''[object Object]'' | Some f \<Rightarrow> None)"

fun js_truthy :: "json \<Rightarrow> bool" where
  "js_truthy JNull = False"
| "js_truthy (JBool b) = b"
| "js_truthy (JNum n) = (n \<noteq> ''0'')"
| "js_truthy (JStr s) = (s \<noteq> [])"
| "js_truthy (JArr xs) = True"
| "js_truthy (JObj kvs) = True"

text \<open>\<open>v || d\<close> for a property value \<open>v\<close> that may be undefined.\<close>

definition or_else :: "json option \<Rightarrow> json \<Rightarrow> json" where
  "or_else v d = (case v of None \<Rightarrow> d | Some x \<Rightarrow> if js_truthy x then x else d)"

subsection \<open>State\<close>

text \<open>
  \<open>useChat\<close> is a library hook. The window reads its \<open>status\<close>, which the library
  documents as one of four values: \<open>submitted\<close> (the message has been sent and the
  response has not started), \<open>streaming\<close> (the response is arriving), \<open>ready\<close>
  and \<open>error\<close>. \<open>requests\<close> counts the requests that \<open>chat.handleSubmit\<close> has sent;
  nothing else in the window sends one.
\<close>

datatype chat_status = submitted | streaming | ready | error

record client =
  hasError :: "js_error option"
  chat_status :: chat_status
  requests :: nat
  href :: string
  toasts :: "(string \<times> string option) list"

text \<open>The response the hook hands to \<open>onResponse\<close>: its status, and its body parsed as
  JSON (\<open>None\<close> when \<open>response.json()\<close> rejects). \<open>response.ok\<close> is the status range
  200 to 299. A status is a 16-bit unsigned integer, which JavaScript prints in plain
  decimal digits.\<close>

record http_response =
  resp_status :: nat
  resp_json :: "json option"

definition ok :: "http_response \<Rightarrow> bool" where
  "ok response = (200 \<le> resp_status response \<and> resp_status response \<le> 299)"

text \<open>\<open>chat.handleSubmit\<close> with a message typed: the hook sends it and waits.\<close>

definition handleSubmit :: "client \<Rightarrow> client" where
  "handleSubmit s = s\<lparr>chat_status := submitted, requests := Suc (requests s)\<rparr>"

subsection \<open>The callbacks and handlers of ChatWindow\<close>

definition onFinish :: "client \<Rightarrow> client" where
  "onFinish s = s\<lparr>hasError := None\<rparr>"

definition status_error :: "http_response \<Rightarrow> js_error" where
  "status_error response = Error (''Request failed with status '' @ show_nat (resp_status response))"

text \<open>
  \<open>response.json().then(...).catch(...)\<close>: the catch runs when the body does not parse,
  and also when the \<open>then\<close> callback throws, which \<open>data.error\<close> does for a body
  that is \<open>null\<close> and \<open>new Error(...)\<close> does for a value that has no string. The
  state is the one after the promise has settled.
\<close>

definition onResponse :: "http_response \<Rightarrow> client \<Rightarrow> client" where
  "onResponse response s =
     (if \<not> ok response then
        (case resp_json response of
           None \<Rightarrow> s\<lparr>hasError := Some (status_error response)\<rparr>
         | Some data \<Rightarrow>
             (case get_prop data ''error'' of
                Inl e \<Rightarrow> s\<lparr>hasError := Some (status_error response)\<rparr>
              | Inr v \<Rightarrow>
                  (case js_String (or_else v (JStr ''Unknown error occurred'')) of
                     None \<Rightarrow> s\<lparr>hasError := Some (status_error response)\<rparr>
                   | Some m \<Rightarrow> s\<lparr>hasError := Some (Error m)\<rparr>)))
      else s\<lparr>hasError := None\<rparr>)"

definition onError :: "js_error \<Rightarrow> client \<Rightarrow> client" where
  "onError e s =
     s\<lparr>hasError := Some e,
       toasts := toasts s @ [(''Error while processing your request'', message e)]\<rparr>"

definition isChatLoading :: "client \<Rightarrow> bool" where
  "isChatLoading s = (chat_status s = streaming)"

definition sendMessage :: "client \<Rightarrow> client" where
  "sendMessage s = (if isChatLoading s then s else handleSubmit (s\<lparr>hasError := None\<rparr>))"

definition retryConnection :: "client \<Rightarrow> client" where
  "retryConnection s = s\<lparr>hasError := None, href := ''/auth/logout?returnTo=/''\<rparr>"

subsection \<open>The form\<close>

text \<open>
  ChatWindow passes \<open>loading = isChatLoading()\<close> and \<open>disabled = !!hasError\<close> to
  ChatInput, which disables the input when \<open>disabled\<close> and the submit button when
  \<open>loading || disabled\<close>. The button is the repository's Button component, which is
  not among the sources and is taken to hand \<open>type\<close> and \<open>disabled\<close> to the native
  button. A browser submits a form through its submit button, by a click or by Enter in a
  field, and not at all while that button is disabled; so the submit event reaches
  \<open>sendMessage\<close> only when the button is enabled.
\<close>

definition input_disabled :: "client \<Rightarrow> bool" where
  "input_disabled s = (hasError s \<noteq> None)"

definition submit_disabled :: "client \<Rightarrow> bool" where
  "submit_disabled s = (isChatLoading s \<or> hasError s \<noteq> None)"

definition submit_form :: "client \<Rightarrow> client" where
  "submit_form s = (if submit_disabled s then s else sendMessage s)"

subsection \<open>Events\<close>

text \<open>
  What can happen to the window. The hook receives the first part of a response and its
  status becomes \<open>streaming\<close>; it calls \<open>onResponse\<close> with the response; it calls
  \<open>onFinish\<close> when the stream has ended and its status becomes \<open>ready\<close>; it calls
  \<open>onError\<close> when the request has failed and its status becomes \<open>error\<close>. The user
  submits the form, or presses the retry button of the error banner. The changes of the
  status are the library's, as it documents them.
\<close>

datatype event =
    Chunk
  | Response http_response
  | Finish
  | Failure js_error
  | Submit
  | Retry

fun step :: "event \<Rightarrow> client \<Rightarrow> client" where
  "step Chunk s = s\<lparr>chat_status := streaming\<rparr>"
| "step (Response r) s = onResponse r s"
| "step Finish s = (onFinish s)\<lparr>chat_status := ready\<rparr>"
| "step (Failure e) s = (onError e s)\<lparr>chat_status := error\<rparr>"
| "step Submit s = submit_form s"
| "step Retry s = retryConnection s"

text \<open>A run of events, first to last.\<close>

fun run :: "event list \<Rightarrow> client \<Rightarrow> client" where
  "run [] s = s"
| "run (ev # evs) s = run evs (step ev s)"

section \<open>Notions used to state the properties\<close>

text \<open>
  The token that gives the full tool set: \<open>getGoogleAccessToken()\<close> returned a non-empty
  token and the Google tools were built without a throw. Every other outcome (a throw
  while getting the token, no token, an empty token, a throw while building the tools)
  has none.
\<close>

definition usable_token :: "externals \<Rightarrow> string option" where
  "usable_token ext =
     (case getGoogleAccessToken ext of
        Inl e \<Rightarrow> None
      | Inr None \<Rightarrow> None
      | Inr (Some tok) \<Rightarrow>
          if tok \<noteq> [] \<and> google_tools_throw ext = None then Some tok else None)"

text \<open>The tools of the agent a response streams from; none for a JSON response.\<close>

definition agent_tools :: "'m response \<Rightarrow> tool list" where
  "agent_tools r = (case r of toDataStreamResponse s \<Rightarrow> tools (agent_of s) | NextResponse_json e c \<Rightarrow> [])"

text \<open>
  The history as the specification words it: of the messages of the body, those whose
  role is \<open>user\<close> or \<open>assistant\<close>, in their order. A body without a list of messages
  has none.
\<close>

definition role_of :: "json \<Rightarrow> json option" where
  "role_of msg = (case msg of JObj kvs \<Rightarrow> map_of kvs ''role'' | _ \<Rightarrow> None)"

definition body_messages :: "json \<Rightarrow> json list" where
  "body_messages body =
     (case body of
        JObj kvs \<Rightarrow> (case map_of kvs ''messages'' of Some (JArr xs) \<Rightarrow> xs | _ \<Rightarrow> [])
      | _ \<Rightarrow> [])"

definition retained :: "json list \<Rightarrow> json list" where
  "retained msgs =
     filter (\<lambda>m. role_of m = Some (JStr ''user'') \<or> role_of m = Some (JStr ''assistant'')) msgs"

subsection \<open>Concrete inputs\<close>

definition user0 :: json where
  "user0 = JObj [(''role'', JStr ''user''), (''content'', JStr ''hi'')]"

definition body0 :: json where
  "body0 = JObj [(''messages'', JArr [
      JObj [(''role'', JStr ''system''), (''content'', JStr ''step'')],
      JObj [(''role'', JStr ''user''), (''content'', JStr ''hi'')]])]"

text \<open>The model key is set, there is no search key, and getting the token throws.\<close>

definition ext_scopes :: externals where
  "ext_scopes =
     \<lparr>GOOGLE_API_KEY = Some ''k'', SERPAPI_API_KEY = None,
      getGoogleAccessToken = Inl (Error ''Request had insufficient authentication scopes''),
      google_tools_throw = None\<rparr>"

text \<open>No model key; everything else is there.\<close>

definition ext_nokey :: externals where
  "ext_nokey =
     \<lparr>GOOGLE_API_KEY = None, SERPAPI_API_KEY = Some ''s'',
      getGoogleAccessToken = Inr (Some ''t''), google_tools_throw = None\<rparr>"

text \<open>The model key and a usable token, no search key.\<close>

definition ext_nosearch :: externals where
  "ext_nosearch =
     \<lparr>GOOGLE_API_KEY = Some ''k'', SERPAPI_API_KEY = None,
      getGoogleAccessToken = Inr (Some ''t''), google_tools_throw = None\<rparr>"

text \<open>Every credential is there.\<close>

definition ext_full :: externals where
  "ext_full =
     \<lparr>GOOGLE_API_KEY = Some ''k'', SERPAPI_API_KEY = Some ''s'',
      getGoogleAccessToken = Inr (Some ''t''), google_tools_throw = None\<rparr>"

text \<open>A window at rest, one that is streaming, and one with the error banner up.\<close>

definition client_ready :: client where
  "client_ready =
     \<lparr>hasError = None, chat_status = ready, requests = 0, href = ''/'', toasts = []\<rparr>"

definition client_streaming :: client where
  "client_streaming =
     \<lparr>hasError = None, chat_status = streaming, requests = 1, href = ''/'', toasts = []\<rparr>"

definition client_blocked :: client where
  "client_blocked =
     \<lparr>hasError = Some (Error ''forbidden''), chat_status = error, requests = 1,
      href = ''/'', toasts = []\<rparr>"

text \<open>Two failed responses: 403 with \<open>{"error": "forbidden"}\<close>, 500 with \<open>{"error": ""}\<close>.\<close>

definition resp_forbidden :: http_response where
  "resp_forbidden = \<lparr>resp_status = 403, resp_json = Some (JObj [(''error'', JStr ''forbidden'')])\<rparr>"

definition resp_empty_error :: http_response where
  "resp_empty_error = \<lparr>resp_status = 500, resp_json = Some (JObj [(''error'', JStr [])])\<rparr>"

text \<open>The model key is set and \<open>getGoogleAccessToken()\<close> returns no token.\<close>

definition ext_notoken :: externals where
  "ext_notoken =
     \<lparr>GOOGLE_API_KEY = Some ''k'', SERPAPI_API_KEY = Some ''s'',
      getGoogleAccessToken = Inr None, google_tools_throw = None\<rparr>"

section \<open>The history stage\<close>

lemma user_or_assistant_Inr:
  "user_or_assistant m = Inr b \<Longrightarrow>
     b = (role_of m = Some (JStr ''user'') \<or> role_of m = Some (JStr ''assistant''))"
  by (cases m) (auto simp: user_or_assistant_def role_of_def)

lemma filter_js_Inr:
  "filter_js user_or_assistant xs = Inr ys \<Longrightarrow> ys = retained xs"
proof (induction xs arbitrary: ys)
  case Nil
  then show ?case by (simp add: retained_def)
next
  case (Cons x xs)
  then show ?case
    by (auto simp: retained_def split: sum.splits dest: user_or_assistant_Inr)
qed

lemma messages_of_Inr:
  "messages_of convert body = Inr ms \<Longrightarrow> ms = map convert (retained (body_messages body))"
  by (cases body)
     (auto simp: messages_of_def body_messages_def retained_def
           split: sum.splits option.splits json.splits dest: filter_js_Inr)

lemma messages_of_body0: "messages_of (\<lambda>m. m) body0 = Inr [user0]"
  by (simp add: messages_of_def body0_def user0_def user_or_assistant_def)

section \<open>The paths of the chat route\<close>

lemma POST_with_key:
  "req = Inr body \<Longrightarrow> messages_of convert body = Inr ms \<Longrightarrow>
   GOOGLE_API_KEY ext = Some key \<Longrightarrow> key \<noteq> [] \<Longrightarrow>
   POST convert ext req =
     after (fst (basicTools ext))
       (with_google ext (ChatGoogleGenerativeAI ''gemini-2.5-flash-preview-04-17'' key 0)
          (snd (basicTools ext)) ms)"
  by (simp add: POST_def)

lemma POST_no_key:
  "\<not> truthy (GOOGLE_API_KEY ext) \<Longrightarrow>
     POST convert ext req =
       (case req of
          Inl e \<Rightarrow> catch_all e
        | Inr body \<Rightarrow>
            (case messages_of convert body of Inl e \<Rightarrow> catch_all e | Inr ms \<Rightarrow> missing_key))"
  by (auto simp: POST_def truthy_def split: sum.splits option.splits)

lemma POST_stream_history:
  "snd (POST convert ext (Inr body)) = toDataStreamResponse s \<Longrightarrow>
     messages_of convert body = Inr (history_of s)"
  by (auto simp: POST_def after_def with_google_def catch_google_def no_token_def
                 full_agent_def missing_key_def catch_all_def
           split: sum.splits option.splits if_splits)

lemma POST_plain_stream_history:
  "POST_plain convert (Inr body) = toDataStreamResponse s \<Longrightarrow>
     messages_of convert body = Inr (history_of s)"
  by (auto simp: POST_plain_def catch_plain_def split: sum.splits)

lemma with_google_stream:
  "\<exists>a. snd (with_google ext l basic ms :: console list \<times> 'm response)
        = toDataStreamResponse (logToolCallsInDevelopment (streamEvents a ms))
      \<and> llm a = l
      \<and> tools a = (case usable_token ext of None \<Rightarrow> basic | Some tok \<Rightarrow> basic @ google_tools tok l)
      \<and> (usable_token ext \<noteq> None \<longrightarrow> messageModifier a = AGENT_SYSTEM_TEMPLATE)"
  by (auto simp: with_google_def after_def catch_google_def no_token_def full_agent_def
                 usable_token_def
           split: sum.splits option.splits)

lemma with_google_thrown:
  assumes "getGoogleAccessToken ext = Inl googleError
         \<or> (\<exists>tok. getGoogleAccessToken ext = Inr (Some tok) \<and> tok \<noteq> []
                \<and> google_tools_throw ext = Some googleError)"
  shows "snd (with_google ext l basic ms :: console list \<times> 'm response)
           = snd (catch_google googleError l basic ms :: console list \<times> 'm response)"
  using assms by (auto simp: with_google_def after_def)

lemma Calculator_basic: "Calculator \<in> set (snd (basicTools ext))"
  by (simp add: basicTools_def split: option.splits)

lemma errorContext_cases:
  "(includes_js (message e) ''insufficient authentication scopes'' \<longrightarrow>
      errorContext e = ''Insufficient Google API permissions. The app needs additional permissions to access your Google data.'')
 \<and> (\<not> includes_js (message e) ''insufficient authentication scopes'' \<and> includes_js (message e) ''token'' \<longrightarrow>
      errorContext e = ''Authentication token error. Please try logging out and back in to refresh your permissions.'')
 \<and> (\<not> includes_js (message e) ''insufficient authentication scopes'' \<and> \<not> includes_js (message e) ''token'' \<longrightarrow>
      errorContext e = ''Google integration error'')"
  by (simp add: errorContext_def)

lemma includes_scopes:
  "includes_js (Some ''Request had insufficient authentication scopes'') ''insufficient authentication scopes''"
  unfolding includes_js_def by code_simp

section \<open>Properties of the chat route\<close>

text \<open>
  C1. Once the handler has read the history and found the model key, the outcome of the
  Google credential does not stop it: whether \<open>getGoogleAccessToken()\<close> throws, returns
  nothing, returns an empty token, or the Google tools throw while they are built, the
  response is the stream of an agent over the same history. The tools of that agent
  contain the Calculator; they are the basic tools followed by the four Google tools when
  the token is usable, and the basic tools alone in every other case. The outer catch is
  never taken.
\<close>

theorem provisioning_always_reaches_agent:
  assumes "req = Inr body" and "messages_of convert body = Inr ms"
      and "GOOGLE_API_KEY ext = Some key" and "key \<noteq> []"
  shows "\<exists>a. snd (POST convert ext req)
               = toDataStreamResponse (logToolCallsInDevelopment (streamEvents a ms))
           \<and> Calculator \<in> set (tools a)
           \<and> tools a =
               (case usable_token ext of
                  None \<Rightarrow> snd (basicTools ext)
                | Some tok \<Rightarrow> snd (basicTools ext) @ google_tools tok (llm a))"
proof -
  let ?l = "ChatGoogleGenerativeAI ''gemini-2.5-flash-preview-04-17'' key 0"
  obtain a where a:
    "snd (with_google ext ?l (snd (basicTools ext)) ms :: console list \<times> 'a response)
       = toDataStreamResponse (logToolCallsInDevelopment (streamEvents a ms))"
    "llm a = ?l"
    "tools a = (case usable_token ext of None \<Rightarrow> snd (basicTools ext)
                | Some tok \<Rightarrow> snd (basicTools ext) @ google_tools tok ?l)"
    using with_google_stream by blast
  have "snd (POST convert ext req)
          = toDataStreamResponse (logToolCallsInDevelopment (streamEvents a ms))"
    using POST_with_key [OF assms] a(1) by (simp add: after_def)
  moreover have "Calculator \<in> set (tools a)"
    using a(3) Calculator_basic [of ext] by (simp split: option.splits)
  ultimately show ?thesis
    using a(2,3) by (intro exI [of _ a]) (simp cong: option.case_cong)
qed

theorem provisioning_always_reaches_agent_witness:
  "\<exists>a. snd (POST (\<lambda>m. m) ext_scopes (Inr body0))
          = toDataStreamResponse (logToolCallsInDevelopment (streamEvents a [user0]))
      \<and> Calculator \<in> set (tools a)
      \<and> tools a = [Calculator]"
  using provisioning_always_reaches_agent
          [of "Inr body0" body0 "\<lambda>m. m" "[user0]" ext_scopes "''k''"]
  by (auto simp: messages_of_body0 ext_scopes_def usable_token_def basicTools_def)

text \<open>
  C2 as stated fails. The handler reads the body and builds the history (lines 59 to 66)
  before it looks at the key (line 69). With no \<open>GOOGLE_API_KEY\<close>, a request whose
  body is empty, or is \<open>null\<close>, is answered by the outer catch with the message of the
  thrown error, not with the message about the key; and a thrown error that carries a
  status is answered with that status, not with 500.
\<close>

theorem missing_key_unreadable_body_counterexample:
  "\<not> truthy (GOOGLE_API_KEY ext_nokey)
   \<and> snd (POST (\<lambda>m. m) ext_nokey (Inl (Error ''Unexpected end of JSON input'')))
       = NextResponse_json (Some ''Unexpected end of JSON input'') 500
   \<and> snd (POST (\<lambda>m. m) ext_nokey (Inr JNull))
       = NextResponse_json (Some ''Cannot read properties of null (reading 'messages')'') 500
   \<and> snd (POST (\<lambda>m. m) ext_nokey (Inl \<lparr>message = Some ''Bad Request'', status = Some 400\<rparr>))
       = NextResponse_json (Some ''Bad Request'') 400"
  by (simp add: ext_nokey_def truthy_def POST_def messages_of_def catch_all_def
                Error_def TypeError_def)

text \<open>
  C2, amended. When \<open>GOOGLE_API_KEY\<close> is undefined or empty the handler never answers
  with a stream. For a request whose body was read and whose history was built without a
  throw, it stops at the check of the key: the answer is the JSON response
  \<open>{error: 'Server configuration error: Missing Gemini API key'}\<close> with status 500,
  after one line on the error console.
\<close>

theorem missing_gemini_key_short_circuits:
  assumes "\<not> truthy (GOOGLE_API_KEY ext)"
  shows "\<not> is_stream (snd (POST convert ext req))
       \<and> (req = Inr body \<and> messages_of convert body = Inr ms \<longrightarrow>
            snd (POST convert ext req)
              = NextResponse_json (Some ''Server configuration error: Missing Gemini API key'') 500
          \<and> http_status (snd (POST convert ext req)) = 500
          \<and> fst (POST convert ext req)
              = [console_error ''Missing GOOGLE_API_KEY environment variable''])"
  using POST_no_key [OF assms, of convert req]
  by (auto simp: missing_key_def catch_all_def split: sum.splits)

theorem missing_gemini_key_short_circuits_witness:
  "\<not> truthy (GOOGLE_API_KEY ext_nokey)
   \<and> POST (\<lambda>m. m) ext_nokey (Inr body0)
       = ([console_error ''Missing GOOGLE_API_KEY environment variable''],
          NextResponse_json (Some ''Server configuration error: Missing Gemini API key'') 500)"
proof -
  have k: "\<not> truthy (GOOGLE_API_KEY ext_nokey)"
    by (simp add: ext_nokey_def truthy_def)
  show ?thesis
    using k missing_gemini_key_short_circuits [OF k, of "\<lambda>m. m" "Inr body0" body0 "[user0]"]
          messages_of_body0
    by (simp add: prod_eq_iff)
qed

text \<open>
  C3. When the inner try throws \<open>googleError\<close> (from \<open>getGoogleAccessToken()\<close>, or from
  building the Google tools with a token in hand), the handler still answers with a
  stream, status 200, of an agent with the basic tools only. Its system message is the
  template followed by a note that names Gmail and Calendar as unavailable, gives one of
  three hints, and asks to log out and back in. The hint is the one about permissions
  when the message of the error contains \<open>insufficient authentication scopes\<close>;
  otherwise the one about the token when it contains \<open>token\<close>; otherwise
  \<open>Google integration error\<close>.
\<close>

theorem google_error_degrades_with_hint:
  assumes "req = Inr body" and "messages_of convert body = Inr ms"
      and "GOOGLE_API_KEY ext = Some key" and "key \<noteq> []"
      and "getGoogleAccessToken ext = Inl googleError
         \<or> (\<exists>tok. getGoogleAccessToken ext = Inr (Some tok) \<and> tok \<noteq> []
                \<and> google_tools_throw ext = Some googleError)"
  shows "snd (POST convert ext req)
           = toDataStreamResponse (logToolCallsInDevelopment (streamEvents
               \<lparr>llm = ChatGoogleGenerativeAI ''gemini-2.5-flash-preview-04-17'' key 0,
                tools = snd (basicTools ext),
                messageModifier = AGENT_SYSTEM_TEMPLATE @ google_note googleError\<rparr> ms))
       \<and> http_status (snd (POST convert ext req)) = 200
       \<and> google_note googleError
           = nl @ nl @ ''NOTE: Google integrations (Gmail, Calendar) are currently unavailable: ''
             @ errorContext googleError
             @ ''. Please try logging out and back in with Google to fix this issue.''
       \<and> (includes_js (message googleError) ''insufficient authentication scopes'' \<longrightarrow>
            errorContext googleError = ''Insufficient Google API permissions. The app needs additional permissions to access your Google data.'')
       \<and> (\<not> includes_js (message googleError) ''insufficient authentication scopes''
            \<and> includes_js (message googleError) ''token'' \<longrightarrow>
            errorContext googleError = ''Authentication token error. Please try logging out and back in to refresh your permissions.'')
       \<and> (\<not> includes_js (message googleError) ''insufficient authentication scopes''
            \<and> \<not> includes_js (message googleError) ''token'' \<longrightarrow>
            errorContext googleError = ''Google integration error'')"
proof -
  have "snd (POST convert ext req)
          = snd (catch_google googleError (ChatGoogleGenerativeAI ''gemini-2.5-flash-preview-04-17'' key 0)
                   (snd (basicTools ext)) ms :: console list \<times> 'a response)"
    using POST_with_key [OF assms(1-4)] with_google_thrown [OF assms(5)]
    by (simp add: after_def)
  then have 1: "snd (POST convert ext req)
           = toDataStreamResponse (logToolCallsInDevelopment (streamEvents
               \<lparr>llm = ChatGoogleGenerativeAI ''gemini-2.5-flash-preview-04-17'' key 0,
                tools = snd (basicTools ext),
                messageModifier = AGENT_SYSTEM_TEMPLATE @ google_note googleError\<rparr> ms))"
    by (simp add: catch_google_def)
  then have 2: "http_status (snd (POST convert ext req)) = 200" by simp
  have 3: "google_note googleError
           = nl @ nl @ ''NOTE: Google integrations (Gmail, Calendar) are currently unavailable: ''
             @ errorContext googleError
             @ ''. Please try logging out and back in with Google to fix this issue.''"
    by (simp add: google_note_def)
  show ?thesis using 1 2 3 errorContext_cases [of googleError] by blast
qed

theorem google_error_degrades_with_hint_witness:
  "snd (POST (\<lambda>m. m) ext_scopes (Inr body0))
     = toDataStreamResponse (logToolCallsInDevelopment (streamEvents
         \<lparr>llm = ChatGoogleGenerativeAI ''gemini-2.5-flash-preview-04-17'' ''k'' 0,
          tools = [Calculator],
          messageModifier = AGENT_SYSTEM_TEMPLATE @ nl @ nl
            @ ''NOTE: Google integrations (Gmail, Calendar) are currently unavailable: ''
            @ ''Insufficient Google API permissions. The app needs additional permissions to access your Google data.''
            @ ''. Please try logging out and back in with Google to fix this issue.''\<rparr> [user0]))"
  using google_error_degrades_with_hint
          [of "Inr body0" body0 "\<lambda>m. m" "[user0]" ext_scopes "''k''"
              "Error ''Request had insufficient authentication scopes''"]
        messages_of_body0 includes_scopes
  by (simp add: ext_scopes_def basicTools_def Error_def)

lemma template_has_no_note: "\<not> sublist ''NOTE:'' AGENT_SYSTEM_TEMPLATE"
  by code_simp

lemma basicTools_no_search:
  "\<not> truthy (SERPAPI_API_KEY ext) \<Longrightarrow>
     basicTools ext =
       ([console_warn ''SERPAPI_API_KEY not configured - web search functionality will be unavailable''],
        [Calculator])"
  by (auto simp: basicTools_def truthy_def split: option.splits)

lemma basicTools_search:
  "k \<noteq> [] \<Longrightarrow> basicTools (ext\<lparr>SERPAPI_API_KEY := Some k\<rparr>) = ([], [Calculator, SerpAPI k])"
  by (simp add: basicTools_def)

lemma usable_token_search [simp]:
  "usable_token (ext\<lparr>SERPAPI_API_KEY := v\<rparr>) = usable_token ext"
  by (simp add: usable_token_def split: sum.splits option.splits)

lemma agent_tools_POST:
  assumes "req = Inr body" and "messages_of convert body = Inr ms"
      and "GOOGLE_API_KEY ext = Some key" and "key \<noteq> []"
  shows "agent_tools (snd (POST convert ext req)) =
           (case usable_token ext of
              None \<Rightarrow> snd (basicTools ext)
            | Some tok \<Rightarrow>
                snd (basicTools ext)
                  @ google_tools tok (ChatGoogleGenerativeAI ''gemini-2.5-flash-preview-04-17'' key 0))"
proof -
  let ?l = "ChatGoogleGenerativeAI ''gemini-2.5-flash-preview-04-17'' key 0"
  obtain a where a:
    "snd (with_google ext ?l (snd (basicTools ext)) ms :: console list \<times> 'a response)
       = toDataStreamResponse (logToolCallsInDevelopment (streamEvents a ms))"
    "tools a = (case usable_token ext of None \<Rightarrow> snd (basicTools ext)
                | Some tok \<Rightarrow> snd (basicTools ext) @ google_tools tok ?l)"
    using with_google_stream by blast
  then show ?thesis
    using POST_with_key [OF assms] by (simp add: after_def agent_tools_def)
qed

text \<open>
  C9. With the model key set and no search key, a request whose body was read and whose
  history was built is answered with a stream, status 200, after the warning about
  \<open>SERPAPI_API_KEY\<close> on the console. The agent has no search tool and every other tool:
  the Calculator, and the four Google tools when the token is usable; its tools are those
  of the same request under a search key \<open>k\<close>, with \<open>SerpAPI k\<close> removed. When the
  token is usable the system message is the template as it is, and the template holds no
  \<open>NOTE:\<close>.
\<close>

theorem no_search_key_drops_only_search:
  assumes "req = Inr body" and "messages_of convert body = Inr ms"
      and "GOOGLE_API_KEY ext = Some key" and "key \<noteq> []"
      and "\<not> truthy (SERPAPI_API_KEY ext)"
  shows "\<exists>a. snd (POST convert ext req)
               = toDataStreamResponse (logToolCallsInDevelopment (streamEvents a ms))
           \<and> http_status (snd (POST convert ext req)) = 200
           \<and> console_warn ''SERPAPI_API_KEY not configured - web search functionality will be unavailable''
                \<in> set (fst (POST convert ext req))
           \<and> (\<forall>k. SerpAPI k \<notin> set (tools a))
           \<and> tools a =
               (case usable_token ext of
                  None \<Rightarrow> [Calculator]
                | Some tok \<Rightarrow> Calculator # google_tools tok (llm a))
           \<and> (\<forall>k. k \<noteq> [] \<longrightarrow>
                 tools a = removeAll (SerpAPI k)
                   (agent_tools (snd (POST convert (ext\<lparr>SERPAPI_API_KEY := Some k\<rparr>) req))))
           \<and> (usable_token ext \<noteq> None \<longrightarrow> messageModifier a = AGENT_SYSTEM_TEMPLATE)
           \<and> \<not> sublist ''NOTE:'' AGENT_SYSTEM_TEMPLATE"
proof -
  let ?l = "ChatGoogleGenerativeAI ''gemini-2.5-flash-preview-04-17'' key 0"
  let ?warn = "console_warn ''SERPAPI_API_KEY not configured - web search functionality will be unavailable''"
  have basic: "basicTools ext = ([?warn], [Calculator])"
    using basicTools_no_search [OF assms(5)] .
  obtain a where a:
    "snd (with_google ext ?l [Calculator] ms :: console list \<times> 'a response)
       = toDataStreamResponse (logToolCallsInDevelopment (streamEvents a ms))"
    "llm a = ?l"
    "tools a = (case usable_token ext of None \<Rightarrow> [Calculator]
                | Some tok \<Rightarrow> [Calculator] @ google_tools tok ?l)"
    "usable_token ext \<noteq> None \<longrightarrow> messageModifier a = AGENT_SYSTEM_TEMPLATE"
    using with_google_stream by blast
  have post: "POST convert ext req = after [?warn] (with_google ext ?l [Calculator] ms)"
    using POST_with_key [OF assms(1-4)] basic by simp
  have 1: "snd (POST convert ext req)
             = toDataStreamResponse (logToolCallsInDevelopment (streamEvents a ms))"
    using post a(1) by (simp add: after_def)
  have 2: "http_status (snd (POST convert ext req)) = 200"
    using 1 by simp
  have 3: "?warn \<in> set (fst (POST convert ext req))"
    using post by (simp add: after_def)
  have 4: "\<forall>k. SerpAPI k \<notin> set (tools a)"
    using a(3) by (simp add: google_tools_def split: option.splits)
  have 5: "tools a = (case usable_token ext of None \<Rightarrow> [Calculator]
                      | Some tok \<Rightarrow> Calculator # google_tools tok (llm a))"
    using a(2,3) by (simp cong: option.case_cong)
  have 6: "tools a = removeAll (SerpAPI k)
             (agent_tools (snd (POST convert (ext\<lparr>SERPAPI_API_KEY := Some k\<rparr>) req)))"
    if k: "k \<noteq> []" for k
  proof -
    have "agent_tools (snd (POST convert (ext\<lparr>SERPAPI_API_KEY := Some k\<rparr>) req)) =
            (case usable_token ext of
               None \<Rightarrow> [Calculator, SerpAPI k]
             | Some tok \<Rightarrow> [Calculator, SerpAPI k] @ google_tools tok ?l)"
      using agent_tools_POST [of req body convert ms "ext\<lparr>SERPAPI_API_KEY := Some k\<rparr>" key]
            assms(1-4) basicTools_search [OF k, of ext]
      by (simp cong: option.case_cong)
    then show ?thesis
      using a(3) by (simp add: google_tools_def split: option.splits)
  qed
  show ?thesis
    using 1 2 3 4 5 6 a(4) template_has_no_note by (intro exI [of _ a]) simp
qed

theorem no_search_key_drops_only_search_witness:
  "\<exists>a. POST (\<lambda>m. m) ext_nosearch (Inr body0)
          = ([console_warn ''SERPAPI_API_KEY not configured - web search functionality will be unavailable'',
              console_log ''Successfully retrieved Google access token, initializing tools'',
              console_log ''Successfully created Google tools, creating agent''],
             toDataStreamResponse (logToolCallsInDevelopment (streamEvents a [user0])))
      \<and> tools a = Calculator # google_tools ''t'' (llm a)
      \<and> tools a = removeAll (SerpAPI ''s'') (agent_tools (snd (POST (\<lambda>m. m) ext_full (Inr body0))))
      \<and> messageModifier a = AGENT_SYSTEM_TEMPLATE"
proof -
  have full: "ext_nosearch\<lparr>SERPAPI_API_KEY := Some ''s''\<rparr> = ext_full"
    by (simp add: ext_nosearch_def ext_full_def)
  have usable: "usable_token ext_nosearch = Some ''t''"
    by (simp add: usable_token_def ext_nosearch_def)
  have logs: "fst (POST (\<lambda>m. m) ext_nosearch (Inr body0) :: console list \<times> json response)
          = [console_warn ''SERPAPI_API_KEY not configured - web search functionality will be unavailable'',
             console_log ''Successfully retrieved Google access token, initializing tools'',
             console_log ''Successfully created Google tools, creating agent'']"
    using messages_of_body0
    by (simp add: POST_def ext_nosearch_def basicTools_def after_def with_google_def full_agent_def)
  obtain a where a:
    "snd (POST (\<lambda>m. m) ext_nosearch (Inr body0))
       = toDataStreamResponse (logToolCallsInDevelopment (streamEvents a [user0]))"
    "tools a = (case usable_token ext_nosearch of None \<Rightarrow> [Calculator]
                | Some tok \<Rightarrow> Calculator # google_tools tok (llm a))"
    "\<forall>k. k \<noteq> [] \<longrightarrow>
        tools a = removeAll (SerpAPI k)
          (agent_tools (snd (POST (\<lambda>m. m) (ext_nosearch\<lparr>SERPAPI_API_KEY := Some k\<rparr>) (Inr body0))))"
    "usable_token ext_nosearch \<noteq> None \<longrightarrow> messageModifier a = AGENT_SYSTEM_TEMPLATE"
    using no_search_key_drops_only_search
            [of "Inr body0" body0 "\<lambda>m. m" "[user0]" ext_nosearch "''k''"]
          messages_of_body0
    by (auto simp: ext_nosearch_def truthy_def)
  have "tools a = removeAll (SerpAPI ''s'') (agent_tools (snd (POST (\<lambda>m. m) ext_full (Inr body0))))"
    using a(3) full by (metis list.distinct(1))
  then show ?thesis
    using a(1,2,4) usable logs by (intro exI [of _ a]) (simp add: prod_eq_iff)
qed

section \<open>Properties of the history\<close>

text \<open>
  C4. Whenever one of the two routes answers a request with a stream, the history given
  to \<open>streamEvents\<close> is the converter applied, in order, to exactly those messages of the
  body whose role is \<open>user\<close> or \<open>assistant\<close>: the retained messages are a subsequence
  of the messages of the body, each of them has one of the two roles, and no message of
  the body with one of the two roles is left out. This holds for every list of messages,
  in whatever order.
\<close>

theorem history_is_user_and_assistant_only:
  assumes "snd (POST convert ext (Inr body)) = toDataStreamResponse s
         \<or> POST_plain convert (Inr body) = toDataStreamResponse s"
  shows "history_of s = map convert (retained (body_messages body))
       \<and> subseq (retained (body_messages body)) (body_messages body)
       \<and> (\<forall>m \<in> set (body_messages body).
            m \<in> set (retained (body_messages body)) \<longleftrightarrow>
              (role_of m = Some (JStr ''user'') \<or> role_of m = Some (JStr ''assistant'')))"
proof -
  have "messages_of convert body = Inr (history_of s)"
    using assms POST_stream_history POST_plain_stream_history by blast
  then have "history_of s = map convert (retained (body_messages body))"
    by (rule messages_of_Inr)
  moreover have "subseq (retained (body_messages body)) (body_messages body)"
    by (simp add: retained_def)
  ultimately show ?thesis by (auto simp: retained_def)
qed

theorem history_is_user_and_assistant_only_witness:
  "history_of (logToolCallsInDevelopment (streamEvents
       \<lparr>llm = ChatGoogleGenerativeAI ''gemini-2.5-flash-preview-04-17'' ''k'' 0,
        tools = [Calculator],
        messageModifier = AGENT_SYSTEM_TEMPLATE @ google_note (Error ''Request had insufficient authentication scopes'')\<rparr>
       [user0]))
     = map (\<lambda>m. m) (retained (body_messages body0))
   \<and> retained (body_messages body0) = [user0]"
proof -
  have "snd (POST (\<lambda>m. m) ext_scopes (Inr body0))
     = toDataStreamResponse (logToolCallsInDevelopment (streamEvents
         \<lparr>llm = ChatGoogleGenerativeAI ''gemini-2.5-flash-preview-04-17'' ''k'' 0,
          tools = [Calculator],
          messageModifier = AGENT_SYSTEM_TEMPLATE @ google_note (Error ''Request had insufficient authentication scopes'')\<rparr>
         [user0]))"
    using messages_of_body0
    by (simp add: POST_def ext_scopes_def basicTools_def after_def with_google_def catch_google_def)
  then show ?thesis
    using history_is_user_and_assistant_only [of "\<lambda>m. m" ext_scopes body0]
    by (auto simp: retained_def body_messages_def body0_def user0_def role_of_def)
qed

text \<open>
  C10 as stated fails: the body \<open>null\<close> parses as JSON and has no \<open>messages\<close>, yet
  \<open>body.messages\<close> throws on it and both routes answer with a JSON error, status 500,
  even when every credential is there.
\<close>

theorem null_body_counterexample:
  "get_prop JNull ''messages'' = Inl (TypeError ''Cannot read properties of null (reading 'messages')'')
   \<and> snd (POST (\<lambda>m. m) ext_full (Inr JNull))
       = NextResponse_json (Some ''Cannot read properties of null (reading 'messages')'') 500
   \<and> POST_plain (\<lambda>m. m) (Inr JNull)
       = NextResponse_json (Some ''Cannot read properties of null (reading 'messages')'') 500"
  by (simp add: POST_def POST_plain_def messages_of_def catch_all_def catch_plain_def TypeError_def)

text \<open>
  C10, amended. For every body other than \<open>null\<close> whose \<open>messages\<close> is undefined or
  \<open>null\<close>, the history is the empty list: the plain route answers with the stream of its
  agent over the empty history, and the chat route answers as it does for the body
  \<open>{"messages": []}\<close>, which with the model key set is a stream over the empty history.
\<close>

theorem missing_messages_is_empty_history:
  assumes "body \<noteq> JNull"
      and "get_prop body ''messages'' = Inr None \<or> get_prop body ''messages'' = Inr (Some JNull)"
  shows "messages_of convert body = Inr []
       \<and> POST_plain convert (Inr body)
           = toDataStreamResponse (streamEvents
               \<lparr>llm = ChatOpenAI ''gpt-4'' 0, tools = [],
                messageModifier = AGENT_SYSTEM_TEMPLATE_plain\<rparr> [])
       \<and> POST convert ext (Inr body) = POST convert ext (Inr (JObj [(''messages'', JArr [])]))
       \<and> (truthy (GOOGLE_API_KEY ext) \<longrightarrow>
            (\<exists>a. snd (POST convert ext (Inr body))
                    = toDataStreamResponse (logToolCallsInDevelopment (streamEvents a []))))"
proof -
  have m: "messages_of convert body = Inr []"
    using assms(2) by (auto simp: messages_of_def)
  have e: "messages_of convert (JObj [(''messages'', JArr [])]) = Inr []"
    by (simp add: messages_of_def)
  have 1: "POST_plain convert (Inr body)
           = toDataStreamResponse (streamEvents
               \<lparr>llm = ChatOpenAI ''gpt-4'' 0, tools = [],
                messageModifier = AGENT_SYSTEM_TEMPLATE_plain\<rparr> [])"
    using m by (simp add: POST_plain_def)
  have 2: "POST convert ext (Inr body) = POST convert ext (Inr (JObj [(''messages'', JArr [])]))"
    using m e by (simp add: POST_def)
  have 3: "\<exists>a. snd (POST convert ext (Inr body))
                  = toDataStreamResponse (logToolCallsInDevelopment (streamEvents a []))"
    if tk: "truthy (GOOGLE_API_KEY ext)"
  proof -
    obtain key where "GOOGLE_API_KEY ext = Some key" "key \<noteq> []"
      using tk by (cases "GOOGLE_API_KEY ext") (auto simp: truthy_def)
    then show ?thesis
      using POST_with_key [of "Inr body" body convert "[]" ext key] m
            with_google_stream [of ext _ _ "[]"]
      by (simp add: after_def) blast
  qed
  show ?thesis using m 1 2 3 by blast
qed

theorem missing_messages_is_empty_history_witness:
  "messages_of (\<lambda>m. m) (JObj [(''id'', JStr ''1'')]) = Inr []
   \<and> POST_plain (\<lambda>m. m) (Inr (JObj [(''id'', JStr ''1'')]))
       = toDataStreamResponse (streamEvents
           \<lparr>llm = ChatOpenAI ''gpt-4'' 0, tools = [],
            messageModifier = AGENT_SYSTEM_TEMPLATE_plain\<rparr> [])
   \<and> (\<exists>a. snd (POST (\<lambda>m. m) ext_full (Inr (JObj [(''id'', JStr ''1'')])))
            = toDataStreamResponse (logToolCallsInDevelopment (streamEvents a [])))"
proof -
  have n: "JObj [(''id'', JStr ''1'')] \<noteq> JNull"
    by simp
  have g: "get_prop (JObj [(''id'', JStr ''1'')]) ''messages'' = Inr None
         \<or> get_prop (JObj [(''id'', JStr ''1'')]) ''messages'' = Inr (Some JNull)"
    by simp
  note t = missing_messages_is_empty_history [OF n g, of "\<lambda>m. m" ext_full]
  have k: "truthy (GOOGLE_API_KEY ext_full)"
    by (simp add: ext_full_def truthy_def)
  show ?thesis
    using t [THEN conjunct1] t [THEN conjunct2, THEN conjunct1]
          t [THEN conjunct2, THEN conjunct2, THEN conjunct2] k
    by simp
qed

section \<open>Properties of the chat window\<close>

lemma show_nat_403: "show_nat 403 = ''403''"
  by code_simp

text \<open>
  C5 as stated fails: a failed response whose body is \<open>{"error": ""}\<close> has an
  \<open>error\<close> field, and the message of the error state is not its value but
  \<open>Unknown error occurred\<close>.
\<close>

theorem empty_error_field_counterexample:
  "\<not> ok resp_empty_error
   \<and> resp_json resp_empty_error = Some (JObj [(''error'', JStr [])])
   \<and> get_prop (JObj [(''error'', JStr [])]) ''error'' = Inr (Some (JStr []))
   \<and> hasError (onResponse resp_empty_error client_ready) = Some (Error ''Unknown error occurred'')
   \<and> hasError (onResponse resp_empty_error client_ready) \<noteq> Some (Error [])"
  by (simp add: resp_empty_error_def ok_def onResponse_def or_else_def Error_def)

text \<open>
  C5, amended. For a response that is not ok: when its body parses to JSON with an
  \<open>error\<close> field that is a non-empty string, the message of the error state is that
  string; when the field is the empty string the message is \<open>Unknown error occurred\<close>;
  when the body does not parse the message is \<open>Request failed with status\<close> followed
  by the status code. For a response that is ok the error state is cleared.
\<close>

theorem onResponse_error_message:
  "(\<not> ok r \<and> resp_json r = Some data \<and> get_prop data ''error'' = Inr (Some (JStr e)) \<and> e \<noteq> [] \<longrightarrow>
      hasError (onResponse r s) = Some (Error e))
 \<and> (\<not> ok r \<and> resp_json r = Some data \<and> get_prop data ''error'' = Inr (Some (JStr [])) \<longrightarrow>
      hasError (onResponse r s) = Some (Error ''Unknown error occurred''))
 \<and> (\<not> ok r \<and> resp_json r = None \<longrightarrow>
      hasError (onResponse r s)
        = Some (Error (''Request failed with status '' @ show_nat (resp_status r))))
 \<and> (ok r \<longrightarrow> hasError (onResponse r s) = None)"
  by (auto simp: onResponse_def or_else_def status_error_def)

theorem onResponse_error_message_witness:
  "\<not> ok resp_forbidden
   \<and> hasError (onResponse resp_forbidden client_ready) = Some (Error ''forbidden'')
   \<and> hasError (onResponse \<lparr>resp_status = 403, resp_json = None\<rparr> client_ready)
       = Some (Error ''Request failed with status 403'')
   \<and> hasError (onResponse \<lparr>resp_status = 200, resp_json = None\<rparr> client_blocked) = None"
proof -
  have 1: "\<not> ok resp_forbidden"
    by (simp add: ok_def resp_forbidden_def)
  have 2: "hasError (onResponse resp_forbidden client_ready) = Some (Error ''forbidden'')"
    using 1 onResponse_error_message
            [of resp_forbidden "JObj [(''error'', JStr ''forbidden'')]" "''forbidden''" client_ready]
    by (simp add: resp_forbidden_def)
  have 3: "hasError (onResponse \<lparr>resp_status = 403, resp_json = None\<rparr> client_ready)
             = Some (Error ''Request failed with status 403'')"
    using onResponse_error_message [of "\<lparr>resp_status = 403, resp_json = None\<rparr>" _ _ client_ready]
          show_nat_403
    by (simp add: ok_def)
  have 4: "hasError (onResponse \<lparr>resp_status = 200, resp_json = None\<rparr> client_blocked) = None"
    using onResponse_error_message [of "\<lparr>resp_status = 200, resp_json = None\<rparr>" _ _ client_blocked]
    by (simp add: ok_def)
  show ?thesis using 1 2 3 4 by simp
qed

text \<open>
  C6 as stated fails. From a window at rest the user submits a message and, while the
  hook still waits for the response (status \<open>submitted\<close>, form enabled), a second
  one. The first request fails and sets the error state; the second finishes, and
  \<open>onFinish\<close> clears the error state with no retry and no redirect.
\<close>

theorem finish_clears_blocked_counterexample:
  "hasError (run [Submit, Submit, Failure (Error ''Failed to fetch'')] client_ready)
     = Some (Error ''Failed to fetch'')
   \<and> hasError (run [Submit, Submit, Failure (Error ''Failed to fetch''), Finish] client_ready) = None
   \<and> href (run [Submit, Submit, Failure (Error ''Failed to fetch''), Finish] client_ready) = ''/''
   \<and> hasError (step Finish client_blocked) = None
   \<and> href (step Finish client_blocked) = href client_blocked"
  by (simp add: client_ready_def client_blocked_def submit_form_def submit_disabled_def
                sendMessage_def isChatLoading_def handleSubmit_def onError_def onFinish_def)

text \<open>
  C6, amended. While the error state is set, an event clears it exactly when it is the
  retry action, the callback \<open>onFinish\<close>, or \<open>onResponse\<close> with a response that is ok.
  The retry action also sets the location to \<open>/auth/logout?returnTo=/\<close>; no other event
  changes the location. A submission of the form changes nothing, and a failed response or
  an error leaves the error state set.
\<close>

theorem blocked_cleared_only_by:
  assumes "hasError s \<noteq> None"
  shows "(hasError (step ev s) = None \<longleftrightarrow>
            ev = Retry \<or> ev = Finish \<or> (\<exists>r. ev = Response r \<and> ok r))
       \<and> hasError (step Retry s) = None
       \<and> href (step Retry s) = ''/auth/logout?returnTo=/''
       \<and> (ev \<noteq> Retry \<longrightarrow> href (step ev s) = href s)
       \<and> step Submit s = s"
  using assms
  by (cases ev)
     (auto simp: onFinish_def onResponse_def onError_def retryConnection_def
                 submit_form_def submit_disabled_def
           split: option.splits sum.splits)

theorem blocked_cleared_only_by_witness:
  "hasError client_blocked \<noteq> None
   \<and> hasError (step Retry client_blocked) = None
   \<and> href (step Retry client_blocked) = ''/auth/logout?returnTo=/''
   \<and> step Submit client_blocked = client_blocked
   \<and> hasError (step (Failure (Error ''again'')) client_blocked) \<noteq> None"
proof -
  have b: "hasError client_blocked \<noteq> None"
    by (simp add: client_blocked_def)
  show ?thesis
    using b blocked_cleared_only_by [OF b, of Retry]
          blocked_cleared_only_by [OF b, of "Failure (Error ''again'')"]
    by simp
qed

text \<open>
  C7. The code at two submissions in a row. The first, from a window at rest, sends a
  request and leaves the hook at the status \<open>submitted\<close>, where the loading predicate
  is false; the form is enabled and \<open>sendMessage\<close> does not return early, so the second
  submission sends a second request while the first is under way. And \<open>sendMessage\<close>
  has no guard on the error state: called on a window whose error state is set, it
  clears the state and sends a request; only the disabled form stands before it.
\<close>

theorem second_submission_sends_second_request:
  "requests (run [Submit] client_ready) = 1
   \<and> isChatLoading (run [Submit] client_ready) = False
   \<and> hasError (run [Submit] client_ready) = None
   \<and> requests (run [Submit, Submit] client_ready) = 2
   \<and> hasError client_blocked = Some (Error ''forbidden'')
   \<and> hasError (sendMessage client_blocked) = None
   \<and> requests (sendMessage client_blocked) = Suc (requests client_blocked)"
  by (simp add: submit_form_def submit_disabled_def sendMessage_def isChatLoading_def
                handleSubmit_def client_ready_def client_blocked_def)

text \<open>
  C8. The code between the submission and the first part of the response: a message sent
  from a window at rest leaves the hook at the status \<open>submitted\<close>, with one request
  under way, and \<open>isChatLoading\<close> is false; it becomes true only when the first part
  arrives. Until then the form accepts a second submission, which sends a second request.
\<close>

theorem not_loading_while_submitted:
  "chat_status (run [Submit] client_ready) = submitted
   \<and> requests (run [Submit] client_ready) = 1
   \<and> isChatLoading (run [Submit] client_ready) = False
   \<and> isChatLoading (run [Submit, Chunk] client_ready) = True
   \<and> requests (run [Submit, Submit] client_ready) = 2"
  by (simp add: submit_form_def submit_disabled_def sendMessage_def isChatLoading_def
                handleSubmit_def client_ready_def)

section \<open>Further properties\<close>

text \<open>
  The outer catch of the chat route. A request whose body cannot be read, or whose history
  cannot be built, is answered with a JSON error: the message of the thrown error, or
  \<open>Unknown server error\<close> when it has none, and its status, or 500 when it has none.
  This is so whether or not the model key is set.
\<close>

theorem unreadable_request_is_json_error:
  assumes "req = Inl e \<or> (\<exists>body. req = Inr body \<and> messages_of convert body = Inl e)"
  shows "POST convert ext req =
           ([console_error ''API error:''],
            NextResponse_json
              (case message e of
                 None \<Rightarrow> Some ''Unknown server error''
               | Some m \<Rightarrow> if m = [] then Some ''Unknown server error'' else Some m)
              (case status e of None \<Rightarrow> 500 | Some c \<Rightarrow> c))"
  using assms by (auto simp: POST_def catch_all_def)

theorem unreadable_request_is_json_error_witness:
  "POST (\<lambda>m. m) ext_nokey (Inl (Error ''Unexpected end of JSON input''))
     = ([console_error ''API error:''],
        NextResponse_json (Some ''Unexpected end of JSON input'') 500)"
  using unreadable_request_is_json_error
          [of "Inl (Error ''Unexpected end of JSON input'')"
              "Error ''Unexpected end of JSON input''" "\<lambda>m. m" ext_nokey]
  by (simp add: Error_def)

text \<open>
  No access token. When \<open>getGoogleAccessToken()\<close> returns nothing or an empty token, the
  chat route answers with the stream of an agent over the basic tools, whose system
  message is the template followed by the note that asks to sign out and back in.
\<close>

theorem no_token_degrades_with_sign_out_note:
  assumes "req = Inr body" and "messages_of convert body = Inr ms"
      and "GOOGLE_API_KEY ext = Some key" and "key \<noteq> []"
      and "getGoogleAccessToken ext = Inr None \<or> getGoogleAccessToken ext = Inr (Some [])"
  shows "snd (POST convert ext req)
           = toDataStreamResponse (logToolCallsInDevelopment (streamEvents
               \<lparr>llm = ChatGoogleGenerativeAI ''gemini-2.5-flash-preview-04-17'' key 0,
                tools = snd (basicTools ext),
                messageModifier = AGENT_SYSTEM_TEMPLATE @ no_token_note\<rparr> ms))
       \<and> sublist ''Google integrations (Gmail, Calendar) are currently unavailable'' no_token_note
       \<and> sublist ''Please sign out, then sign back in'' no_token_note"
proof -
  have "snd (POST convert ext req)
           = toDataStreamResponse (logToolCallsInDevelopment (streamEvents
               \<lparr>llm = ChatGoogleGenerativeAI ''gemini-2.5-flash-preview-04-17'' key 0,
                tools = snd (basicTools ext),
                messageModifier = AGENT_SYSTEM_TEMPLATE @ no_token_note\<rparr> ms))"
    using POST_with_key [OF assms(1-4)] assms(5)
    by (auto simp: after_def with_google_def no_token_def)
  moreover have "sublist ''Google integrations (Gmail, Calendar) are currently unavailable'' no_token_note"
    by code_simp
  moreover have "sublist ''Please sign out, then sign back in'' no_token_note"
    by code_simp
  ultimately show ?thesis by simp
qed

theorem no_token_degrades_with_sign_out_note_witness:
  "snd (POST (\<lambda>m. m) ext_notoken (Inr body0))
     = toDataStreamResponse (logToolCallsInDevelopment (streamEvents
         \<lparr>llm = ChatGoogleGenerativeAI ''gemini-2.5-flash-preview-04-17'' ''k'' 0,
          tools = [Calculator, SerpAPI ''s''],
          messageModifier = AGENT_SYSTEM_TEMPLATE @ no_token_note\<rparr> [user0]))"
  using no_token_degrades_with_sign_out_note
          [of "Inr body0" body0 "\<lambda>m. m" "[user0]" ext_notoken "''k''"]
        messages_of_body0
  by (simp add: ext_notoken_def basicTools_def)

text \<open>
  \<open>sendMessage\<close> itself looks only at the loading predicate. Called while the window is
  not loading, it clears the error state, set or not, and hands the message to the hook,
  which sends a request.
\<close>

theorem sendMessage_clears_and_sends:
  assumes "\<not> isChatLoading s"
  shows "sendMessage s = s\<lparr>hasError := None, chat_status := submitted, requests := Suc (requests s)\<rparr>"
  using assms by (simp add: sendMessage_def handleSubmit_def)

theorem sendMessage_clears_and_sends_witness:
  "\<not> isChatLoading client_blocked
   \<and> hasError (sendMessage client_blocked) = None
   \<and> requests (sendMessage client_blocked) = 2"
proof -
  have n: "\<not> isChatLoading client_blocked"
    by (simp add: isChatLoading_def client_blocked_def)
  show ?thesis
    using n sendMessage_clears_and_sends [OF n] by (simp add: client_blocked_def)
qed

text \<open>
  What the guards do stop. While the loading predicate is true, \<open>sendMessage\<close> returns
  at once and the form, whose button is disabled, does not call it: nothing changes and no
  request is sent. While the error state is set the form does not call \<open>sendMessage\<close>
  either.
\<close>

theorem no_request_while_loading_or_blocked:
  "(isChatLoading s \<longrightarrow>
      sendMessage s = s \<and> submit_form s = s \<and> requests (submit_form s) = requests s)
 \<and> (hasError s \<noteq> None \<longrightarrow> submit_form s = s \<and> requests (submit_form s) = requests s)"
  by (simp add: sendMessage_def submit_form_def submit_disabled_def)

theorem no_request_while_loading_or_blocked_witness:
  "isChatLoading client_streaming
   \<and> sendMessage client_streaming = client_streaming
   \<and> requests (submit_form client_streaming) = 1
   \<and> hasError client_blocked \<noteq> None
   \<and> submit_form client_blocked = client_blocked
   \<and> requests (submit_form client_blocked) = 1"
proof -
  have l: "isChatLoading client_streaming"
    by (simp add: isChatLoading_def client_streaming_def)
  have b: "hasError client_blocked \<noteq> None"
    by (simp add: client_blocked_def)
  have r: "requests client_streaming = 1" "requests client_blocked = 1"
    by (simp_all add: client_streaming_def client_blocked_def)
  show ?thesis
    using l b r no_request_while_loading_or_blocked [of client_streaming]
          no_request_while_loading_or_blocked [of client_blocked]
    by simp
qed

end
